theory Spec2Isabelle
  imports Main
begin

section \<open>Data model\<close>

text \<open>
  The entities the dashboard reads from the backend. Only the fields that the
  synchronisation code inspects are kept. Status values stay strings, since the code
  compares them with string literals (\<^verbatim>\<open>task.status === 'testing'\<close>).
  A \<^verbatim>\<open>null\<close> assignee is \<open>None\<close>.
\<close>

record agent =
  a_id :: string
  a_status :: string

record task =
  t_id :: string
  t_status :: string
  assigned_agent_id :: "string option"
  updated_at :: string

record event =
  e_id :: string
  e_type :: string

text \<open>
  JavaScript truthiness of a value of type \<^verbatim>\<open>string | null | undefined\<close>:
  \<^verbatim>\<open>null\<close>, \<^verbatim>\<open>undefined\<close> and the empty string are falsy.
\<close>

definition truthy :: "string option \<Rightarrow> bool" where
  "truthy v = (case v of None \<Rightarrow> False | Some s \<Rightarrow> s \<noteq> [])"

section \<open>Blocked agents (AgentActivityDashboard, \<^verbatim>\<open>blockedAgentIds\<close>)\<close>

text \<open>
  The first loop of \<^verbatim>\<open>blockedAgentIds\<close>: every task with a truthy assignee and status
  testing or review adds its assignee to the set.
\<close>

fun blocked_by_tasks :: "task list \<Rightarrow> string set \<Rightarrow> string set" where
  "blocked_by_tasks [] ids = ids"
| "blocked_by_tasks (t # ts) ids =
     (if \<not> truthy (assigned_agent_id t) then blocked_by_tasks ts ids
      else if t_status t = ''testing'' \<or> t_status t = ''review''
        then blocked_by_tasks ts (insert (the (assigned_agent_id t)) ids)
      else blocked_by_tasks ts ids)"

text \<open>\<^verbatim>\<open>tasks.some((task) => task.assigned_agent_id === agent.id && task.status !== 'done')\<close>\<close>

definition hasAssignedActiveTask :: "agent \<Rightarrow> task list \<Rightarrow> bool" where
  "hasAssignedActiveTask a tks =
     list_ex (\<lambda>t. assigned_agent_id t = Some (a_id a) \<and> t_status t \<noteq> ''done'') tks"

text \<open>The second loop: every offline agent with an assigned task that is not done.\<close>

fun blocked_offline :: "agent list \<Rightarrow> task list \<Rightarrow> string set \<Rightarrow> string set" where
  "blocked_offline [] tks ids = ids"
| "blocked_offline (a # as) tks ids =
     (if a_status a = ''offline''
      then (if hasAssignedActiveTask a tks then blocked_offline as tks (insert (a_id a) ids)
            else blocked_offline as tks ids)
      else blocked_offline as tks ids)"

definition blockedAgentIds :: "agent list \<Rightarrow> task list \<Rightarrow> string set" where
  "blockedAgentIds ags tks = blocked_offline ags tks (blocked_by_tasks tks {})"

text \<open>\<^verbatim>\<open>const isBlocked = blockedAgentIds.has(agent.id)\<close>\<close>

definition isBlocked :: "agent \<Rightarrow> agent list \<Rightarrow> task list \<Rightarrow> bool" where
  "isBlocked a ags tks = (a_id a \<in> blockedAgentIds ags tks)"

text \<open>
  The predicate as the specification words it: some task assigned to the agent is in
  testing or review, or the agent is offline and some task assigned to it is not done.
\<close>

definition spec_blocked :: "agent \<Rightarrow> task list \<Rightarrow> bool" where
  "spec_blocked a tks =
     (list_ex (\<lambda>t. assigned_agent_id t = Some (a_id a) \<and>
                    (t_status t = ''testing'' \<or> t_status t = ''review'')) tks
      \<or> (a_status a = ''offline'' \<and>
          list_ex (\<lambda>t. assigned_agent_id t = Some (a_id a) \<and> t_status t \<noteq> ''done'') tks))"

section \<open>Change detection of the task poller (WorkspacePage, \<^verbatim>\<open>taskPoll\<close>)\<close>

text \<open>
  \<^verbatim>\<open>newTasks.some((t) => { const current = currentTasks.find((ct) => ct.id === t.id);
  return !current || current.updated_at !== t.updated_at; })\<close>
  A task object is always truthy, so \<^verbatim>\<open>!current\<close> holds exactly when nothing is found.
\<close>

definition task_changed :: "task list \<Rightarrow> task \<Rightarrow> bool" where
  "task_changed currentTasks t =
     (case find (\<lambda>ct. t_id ct = t_id t) currentTasks of
        None \<Rightarrow> True
      | Some current \<Rightarrow> updated_at current \<noteq> updated_at t)"

definition hasChanges :: "task list \<Rightarrow> task list \<Rightarrow> bool" where
  "hasChanges newTasks currentTasks =
     (length newTasks \<noteq> length currentTasks \<or> list_ex (task_changed currentTasks) newTasks)"

section \<open>Fetch results and the client state\<close>

text \<open>
  What a \<^verbatim>\<open>fetch\<close> promise settles to. \<open>Rejected\<close>: the promise rejects (network
  error, abort). \<open>Response ok body\<close>: it resolves to a response whose \<^verbatim>\<open>ok\<close> flag is
  \<open>ok\<close> and whose \<^verbatim>\<open>json()\<close> yields \<open>Some v\<close>, or rejects (\<open>None\<close>).
\<close>

datatype 'a fetch_result = Rejected | Response bool "'a option"

datatype collection = Agents | Tasks | Events

text \<open>
  The three collections with the log of their setter calls, the \<^verbatim>\<open>console.error\<close> log,
  the log of the URLs passed to \<^verbatim>\<open>fetch\<close>, and the counter handing out timer handles,
  event-source identities and effect-run identities.
\<close>

record client_state =
  agents :: "agent list"
  tasks :: "task list"
  events :: "event list"
  writes :: "collection list"
  console :: "string list"
  fetches :: "string list"
  fresh :: nat

definition setAgents :: "agent list \<Rightarrow> 'a client_state_scheme \<Rightarrow> 'a client_state_scheme" where
  "setAgents v st = st\<lparr>agents := v, writes := writes st @ [Agents]\<rparr>"

definition setTasks :: "task list \<Rightarrow> 'a client_state_scheme \<Rightarrow> 'a client_state_scheme" where
  "setTasks v st = st\<lparr>tasks := v, writes := writes st @ [Tasks]\<rparr>"

definition setEvents :: "event list \<Rightarrow> 'a client_state_scheme \<Rightarrow> 'a client_state_scheme" where
  "setEvents v st = st\<lparr>events := v, writes := writes st @ [Events]\<rparr>"

definition console_error :: "string \<Rightarrow> 'a client_state_scheme \<Rightarrow> 'a client_state_scheme" where
  "console_error msg st = st\<lparr>console := console st @ [msg]\<rparr>"

definition fetch :: "string \<Rightarrow> 'a client_state_scheme \<Rightarrow> 'a client_state_scheme" where
  "fetch url st = st\<lparr>fetches := fetches st @ [url]\<rparr>"

text \<open>\<^verbatim>\<open>Promise.all\<close> resolves only when none of its promises rejects.\<close>

definition all_resolved ::
  "'a fetch_result \<Rightarrow> 'b fetch_result \<Rightarrow> 'c fetch_result \<Rightarrow> bool" where
  "all_resolved a t e = (a \<noteq> Rejected \<and> t \<noteq> Rejected \<and> e \<noteq> Rejected)"

text \<open>
  \<^verbatim>\<open>if (agentsRes.ok) setAgents(await agentsRes.json());\<close> and its two siblings.
  \<open>Inr\<close> is normal completion; \<open>Inl\<close> carries the state in which an exception was
  thrown (a rejected \<^verbatim>\<open>json()\<close>).
\<close>

definition write_agents ::
  "agent list fetch_result \<Rightarrow> 'a client_state_scheme \<Rightarrow> 'a client_state_scheme + 'a client_state_scheme" where
  "write_agents r st =
     (case r of
        Rejected \<Rightarrow> Inl st
      | Response ok body \<Rightarrow>
          (if ok then (case body of None \<Rightarrow> Inl st | Some v \<Rightarrow> Inr (setAgents v st))
           else Inr st))"

definition write_tasks ::
  "task list fetch_result \<Rightarrow> 'a client_state_scheme \<Rightarrow> 'a client_state_scheme + 'a client_state_scheme" where
  "write_tasks r st =
     (case r of
        Rejected \<Rightarrow> Inl st
      | Response ok body \<Rightarrow>
          (if ok then (case body of None \<Rightarrow> Inl st | Some v \<Rightarrow> Inr (setTasks v st))
           else Inr st))"

definition write_events ::
  "event list fetch_result \<Rightarrow> 'a client_state_scheme \<Rightarrow> 'a client_state_scheme + 'a client_state_scheme" where
  "write_events r st =
     (case r of
        Rejected \<Rightarrow> Inl st
      | Response ok body \<Rightarrow>
          (if ok then (case body of None \<Rightarrow> Inl st | Some v \<Rightarrow> Inr (setEvents v st))
           else Inr st))"

text \<open>The three guarded writes in sequence; the first exception ends the sequence.\<close>

definition write_responses ::
  "agent list fetch_result \<Rightarrow> task list fetch_result \<Rightarrow> event list fetch_result \<Rightarrow>
   'a client_state_scheme \<Rightarrow> 'a client_state_scheme + 'a client_state_scheme" where
  "write_responses a t e st =
     (case write_agents a st of
        Inl s \<Rightarrow> Inl s
      | Inr s1 \<Rightarrow>
          (case write_tasks t s1 of
             Inl s \<Rightarrow> Inl s
           | Inr s2 \<Rightarrow> write_events e s2))"

text \<open>
  The body of a \<^verbatim>\<open>try { await Promise.all([...]); writes } catch (error) { console.error(msg) }\<close>
  once the three fetches have settled.
\<close>

definition try_write_responses ::
  "string \<Rightarrow> agent list fetch_result \<Rightarrow> task list fetch_result \<Rightarrow> event list fetch_result \<Rightarrow>
   'a client_state_scheme \<Rightarrow> 'a client_state_scheme" where
  "try_write_responses msg a t e st =
     (if \<not> all_resolved a t e then console_error msg st
      else (case write_responses a t e st of
              Inl s \<Rightarrow> console_error msg s
            | Inr s \<Rightarrow> s))"

section \<open>Request URLs\<close>

text \<open>
  \<^verbatim>\<open>workspaceId ? `/api/agents?workspace_id=${workspaceId}` : '/api/agents'\<close>
\<close>

definition agents_url :: "string option \<Rightarrow> string" where
  "agents_url workspaceId =
     (if truthy workspaceId then ''/api/agents?workspace_id='' @ the workspaceId else ''/api/agents'')"

definition tasks_url :: "string option \<Rightarrow> string" where
  "tasks_url workspaceId =
     (if truthy workspaceId then ''/api/tasks?workspace_id='' @ the workspaceId else ''/api/tasks'')"

definition dashboard_events_url :: string where
  "dashboard_events_url = ''/api/events?limit=150''"

definition page_loadData_events_url :: string where
  "page_loadData_events_url = ''/api/events''"

definition eventPoll_url :: string where
  "eventPoll_url = ''/api/events?limit=20''"

definition status_url :: string where
  "status_url = ''/api/openclaw/status''"

text \<open>The query string of a URL: what follows the first \<open>?\<close>.\<close>

definition query_of :: "string \<Rightarrow> string" where
  "query_of url = drop 1 (dropWhile (\<lambda>c. c \<noteq> CHR ''?'') url)"

fun split_on :: "char \<Rightarrow> string \<Rightarrow> string list" where
  "split_on c [] = [[]]"
| "split_on c (x # xs) =
     (if x = c then [] # split_on c xs
      else (case split_on c xs of [] \<Rightarrow> [[x]] | w # ws \<Rightarrow> (x # w) # ws))"

definition is_events_request :: "string \<Rightarrow> bool" where
  "is_events_request url = (takeWhile (\<lambda>c. c \<noteq> CHR ''?'') url = ''/api/events'')"

text \<open>A request carries a limit when one of its query parameters is named \<open>limit\<close>.\<close>

definition has_limit :: "string \<Rightarrow> bool" where
  "has_limit url =
     list_ex (\<lambda>kv. takeWhile (\<lambda>c. c \<noteq> CHR ''='') kv = ''limit'') (split_on CHR ''&'' (query_of url))"

section \<open>The activity dashboard (AgentActivityDashboard)\<close>

text \<open>
  A suspended call. \<open>LoadData r ws\<close>: \<^verbatim>\<open>loadData\<close> of effect run \<open>r\<close>, whose closure
  holds the variable \<^verbatim>\<open>mounted\<close> of that run, awaits the \<^verbatim>\<open>Promise.all\<close> of its three
  fetches. \<open>LoadBody r ws c a t e\<close>: the same call has passed its guard and awaits
  \<^verbatim>\<open>json()\<close> of the response for collection \<open>c\<close>; \<open>a\<close>, \<open>t\<close> and \<open>e\<close> are the
  three responses it holds. \<open>Refresh ws\<close>: \<^verbatim>\<open>refresh\<close> awaits its \<^verbatim>\<open>Promise.all\<close>.
  The closures captured the workspace id \<open>ws\<close>.
\<close>

datatype pending =
    LoadData nat "string option"
  | LoadBody nat "string option" collection
      "agent list fetch_result" "task list fetch_result" "event list fetch_result"
  | Refresh "string option"

text \<open>
  The component state (\<^verbatim>\<open>useState\<close>, \<^verbatim>\<open>useRef\<close>), the closure variables \<^verbatim>\<open>mounted\<close>
  (one per effect run) and the browser resources the component owns: the event sources
  that are not closed and the interval timers that are not cleared, each with the
  workspace id its handlers captured. \<open>current_run\<close> is the effect run whose cleanup
  has not run yet: React runs the cleanup of a run before the next run starts.
\<close>

record dashboard = client_state +
  loading :: bool
  sseConnected :: bool
  eventSourceRef :: "nat option"
  pollingIntervalRef :: "nat option"
  mounted_flag :: "nat \<Rightarrow> bool"
  current_run :: "nat option"
  open_sources :: "(nat \<times> string option) list"
  active_timers :: "(nat \<times> string option) list"
  in_flight :: "pending list"

definition init :: dashboard where
  "init = \<lparr>agents = [], tasks = [], events = [], writes = [], console = [], fetches = [],
            fresh = 1, loading = True, sseConnected = False, eventSourceRef = None,
            pollingIntervalRef = None, mounted_flag = (\<lambda>_. False), current_run = None,
            open_sources = [], active_timers = [], in_flight = []\<rparr>"

subsection \<open>The loading effect\<close>

text \<open>
  \<^verbatim>\<open>let mounted = true; ... loadData();\<close> : the three fetches are issued at once.
\<close>

definition effect_load :: "string option \<Rightarrow> dashboard \<Rightarrow> dashboard" where
  "effect_load workspaceId st =
     (let r = fresh st;
          st1 = st\<lparr>fresh := Suc r, mounted_flag := (mounted_flag st)(r := True),
                    current_run := Some r\<rparr>;
          st2 = fetch dashboard_events_url (fetch (tasks_url workspaceId)
                  (fetch (agents_url workspaceId) st1))
      in st2\<lparr>in_flight := in_flight st2 @ [LoadData r workspaceId]\<rparr>)"

text \<open>\<^verbatim>\<open>return () => { mounted = false; }\<close>\<close>

definition cleanup_load :: "nat \<Rightarrow> dashboard \<Rightarrow> dashboard" where
  "cleanup_load r st = st\<lparr>mounted_flag := (mounted_flag st)(r := False)\<rparr>"

text \<open>\<^verbatim>\<open>res.ok\<close> of a fetch that resolved.\<close>

definition response_ok :: "'a fetch_result \<Rightarrow> bool" where
  "response_ok r = (case r of Rejected \<Rightarrow> False | Response ok body \<Rightarrow> ok)"

text \<open>
  The three lines \<^verbatim>\<open>if (res.ok) set(await res.json());\<close> run in the order agents,
  tasks, events, and a line suspends only when its response is ok. After the line of
  \<open>prev\<close> (\<open>None\<close>: before the first line), the next suspension is at the first
  later collection whose response is ok; \<open>None\<close> when the lines are through.
\<close>

definition next_await ::
  "collection option \<Rightarrow> agent list fetch_result \<Rightarrow> task list fetch_result \<Rightarrow>
   event list fetch_result \<Rightarrow> collection option" where
  "next_await prev a t e =
     find (\<lambda>c. case c of Agents \<Rightarrow> response_ok a | Tasks \<Rightarrow> response_ok t
                | Events \<Rightarrow> response_ok e)
       (case prev of
          None \<Rightarrow> [Agents, Tasks, Events]
        | Some Agents \<Rightarrow> [Tasks, Events]
        | Some Tasks \<Rightarrow> [Events]
        | Some Events \<Rightarrow> [])"

text \<open>\<^verbatim>\<open>finally { if (mounted) setLoading(false); }\<close>\<close>

definition loadData_finally :: "nat \<Rightarrow> dashboard \<Rightarrow> dashboard" where
  "loadData_finally r st = (if mounted_flag st r then st\<lparr>loading := False\<rparr> else st)"

text \<open>\<^verbatim>\<open>catch (error) { console.error(...); }\<close> and then the \<^verbatim>\<open>finally\<close>.\<close>

definition loadData_catch :: "nat \<Rightarrow> dashboard \<Rightarrow> dashboard" where
  "loadData_catch r st =
     loadData_finally r (console_error ''Failed to load activity dashboard data:'' st)"

text \<open>
  \<^verbatim>\<open>loadData\<close> runs on to its next \<^verbatim>\<open>await\<close>: it suspends there (the result holds
  the suspended call), or it ends through the \<^verbatim>\<open>finally\<close>.
\<close>

definition loadData_await ::
  "nat \<Rightarrow> string option \<Rightarrow> collection option \<Rightarrow> agent list fetch_result \<Rightarrow>
   task list fetch_result \<Rightarrow> event list fetch_result \<Rightarrow> dashboard \<Rightarrow>
   pending option \<times> dashboard" where
  "loadData_await r ws prev a t e st =
     (case next_await prev a t e of
        None \<Rightarrow> (None, loadData_finally r st)
      | Some c \<Rightarrow> (Some (LoadBody r ws c a t e), st))"

text \<open>
  \<^verbatim>\<open>loadData\<close> when its \<^verbatim>\<open>Promise.all\<close> settles: the \<^verbatim>\<open>catch\<close> when a fetch
  rejected, else the guard \<^verbatim>\<open>if (!mounted) return;\<close>, checked here and nowhere else,
  and then on to the first body.
\<close>

definition loadData_settled ::
  "nat \<Rightarrow> string option \<Rightarrow> agent list fetch_result \<Rightarrow> task list fetch_result \<Rightarrow>
   event list fetch_result \<Rightarrow> dashboard \<Rightarrow> pending option \<times> dashboard" where
  "loadData_settled r ws a t e st =
     (if \<not> all_resolved a t e then (None, loadData_catch r st)
      else if \<not> mounted_flag st r then (None, loadData_finally r st)
      else loadData_await r ws None a t e st)"

text \<open>
  \<^verbatim>\<open>loadData\<close> when the \<^verbatim>\<open>json()\<close> it awaits for collection \<open>c\<close> settles: the
  setter is called with the body and the call runs on, or \<^verbatim>\<open>json()\<close> rejected and the
  call ends through the \<^verbatim>\<open>catch\<close>.
\<close>

definition loadData_body ::
  "nat \<Rightarrow> string option \<Rightarrow> collection \<Rightarrow> agent list fetch_result \<Rightarrow>
   task list fetch_result \<Rightarrow> event list fetch_result \<Rightarrow> dashboard \<Rightarrow>
   pending option \<times> dashboard" where
  "loadData_body r ws c a t e st =
     (case c of
        Agents \<Rightarrow>
          (case a of
             Response ok (Some v) \<Rightarrow> loadData_await r ws (Some Agents) a t e (setAgents v st)
           | _ \<Rightarrow> (None, loadData_catch r st))
      | Tasks \<Rightarrow>
          (case t of
             Response ok (Some v) \<Rightarrow> loadData_await r ws (Some Tasks) a t e (setTasks v st)
           | _ \<Rightarrow> (None, loadData_catch r st))
      | Events \<Rightarrow>
          (case e of
             Response ok (Some v) \<Rightarrow> loadData_await r ws (Some Events) a t e (setEvents v st)
           | _ \<Rightarrow> (None, loadData_catch r st)))"

subsection \<open>The synchronisation effect\<close>

text \<open>\<^verbatim>\<open>refresh\<close> up to its \<^verbatim>\<open>await\<close>: the three fetches are issued at once.\<close>

definition refresh_start :: "string option \<Rightarrow> dashboard \<Rightarrow> dashboard" where
  "refresh_start workspaceId st =
     (let st1 = fetch dashboard_events_url (fetch (tasks_url workspaceId)
                  (fetch (agents_url workspaceId) st))
      in st1\<lparr>in_flight := in_flight st1 @ [Refresh workspaceId]\<rparr>)"

text \<open>\<^verbatim>\<open>refresh\<close> after its \<^verbatim>\<open>Promise.all\<close> has settled.\<close>

definition refresh_resume ::
  "agent list fetch_result \<Rightarrow> task list fetch_result \<Rightarrow> event list fetch_result \<Rightarrow>
   dashboard \<Rightarrow> dashboard" where
  "refresh_resume a t e st =
     try_write_responses ''Failed to refresh activity dashboard data:'' a t e st"

definition clearInterval :: "nat \<Rightarrow> dashboard \<Rightarrow> dashboard" where
  "clearInterval h st = st\<lparr>active_timers := filter (\<lambda>p. fst p \<noteq> h) (active_timers st)\<rparr>"

text \<open>
  \<^verbatim>\<open>if (pollingIntervalRef.current) return;
  pollingIntervalRef.current = setInterval(refresh, 20000);\<close>
  The handle has type \<^verbatim>\<open>NodeJS.Timeout\<close>, so the reference is truthy exactly when it
  is not \<^verbatim>\<open>null\<close>.
\<close>

definition startPolling :: "string option \<Rightarrow> dashboard \<Rightarrow> dashboard" where
  "startPolling workspaceId st =
     (case pollingIntervalRef st of
        Some h \<Rightarrow> st
      | None \<Rightarrow>
          (let h = fresh st
           in st\<lparr>fresh := Suc h, active_timers := active_timers st @ [(h, workspaceId)],
                   pollingIntervalRef := Some h\<rparr>))"

definition stopPolling :: "dashboard \<Rightarrow> dashboard" where
  "stopPolling st =
     (case pollingIntervalRef st of
        Some h \<Rightarrow> (clearInterval h st)\<lparr>pollingIntervalRef := None\<rparr>
      | None \<Rightarrow> st)"

text \<open>\<^verbatim>\<open>source.close()\<close>\<close>

definition close_source :: "nat \<Rightarrow> dashboard \<Rightarrow> dashboard" where
  "close_source s st = st\<lparr>open_sources := filter (\<lambda>p. fst p \<noteq> s) (open_sources st)\<rparr>"

text \<open>
  \<^verbatim>\<open>const source = new EventSource('/api/events/stream'); eventSourceRef.current = source;\<close>
\<close>

definition connectSSE :: "string option \<Rightarrow> dashboard \<Rightarrow> dashboard" where
  "connectSSE workspaceId st =
     (let s = fresh st
      in st\<lparr>fresh := Suc s, open_sources := open_sources st @ [(s, workspaceId)],
              eventSourceRef := Some s\<rparr>)"

text \<open>\<^verbatim>\<open>source.onopen\<close>\<close>

definition onopen :: "dashboard \<Rightarrow> dashboard" where
  "onopen st = stopPolling (st\<lparr>sseConnected := True\<rparr>)"

text \<open>\<^verbatim>\<open>event.data.startsWith(':')\<close>\<close>

definition startsWith_colon :: "string \<Rightarrow> bool" where
  "startsWith_colon d = (case d of [] \<Rightarrow> False | c # _ \<Rightarrow> c = CHR '':'')"

text \<open>\<^verbatim>\<open>source.onmessage\<close>\<close>

definition onmessage :: "string option \<Rightarrow> string \<Rightarrow> dashboard \<Rightarrow> dashboard" where
  "onmessage workspaceId d st = (if startsWith_colon d then st else refresh_start workspaceId st)"

text \<open>\<^verbatim>\<open>source.onerror\<close>, in the closure of the source \<open>s\<close>.\<close>

definition onerror :: "nat \<Rightarrow> string option \<Rightarrow> dashboard \<Rightarrow> dashboard" where
  "onerror s workspaceId st =
     startPolling workspaceId
       ((close_source s (st\<lparr>sseConnected := False\<rparr>))\<lparr>eventSourceRef := None\<rparr>)"

text \<open>\<^verbatim>\<open>connectSSE(); startPolling();\<close>\<close>

definition effect_sync :: "string option \<Rightarrow> dashboard \<Rightarrow> dashboard" where
  "effect_sync workspaceId st = startPolling workspaceId (connectSSE workspaceId st)"

text \<open>\<^verbatim>\<open>return () => { eventSourceRef.current?.close(); stopPolling(); }\<close>\<close>

definition cleanup_sync :: "dashboard \<Rightarrow> dashboard" where
  "cleanup_sync st =
     stopPolling (case eventSourceRef st of None \<Rightarrow> st | Some s \<Rightarrow> close_source s st)"

subsection \<open>The events of the dashboard\<close>

text \<open>
  \<open>Mount ws\<close>: both effects run for the workspace id \<open>ws\<close> (first mount, or re-run
  after \<open>ws\<close> changed). \<open>Cleanup\<close>: both cleanups run (unmount, or \<open>ws\<close> changes).
  \<open>SseOpen\<close>, \<open>SseMessage\<close>, \<open>SseError\<close>: an event source that is not closed
  dispatches an event. \<open>Tick\<close>: an interval timer that is not cleared fires.
  \<open>Resolve i\<close>: the \<^verbatim>\<open>Promise.all\<close> that the suspended call number \<open>i\<close> awaits
  settles. \<open>BodyRead i\<close>: the \<^verbatim>\<open>json()\<close> that the suspended call number \<open>i\<close> awaits
  settles.
\<close>

datatype dash_event =
    Mount "string option"
  | Cleanup
  | SseOpen nat
  | SseMessage nat string
  | SseError nat
  | Tick nat
  | Resolve nat "agent list fetch_result" "task list fetch_result" "event list fetch_result"
  | BodyRead nat

text \<open>
  A suspended call is resumed: the result is the call suspended again, or \<open>None\<close> when
  it has ended, with the state it leaves. The whole is \<open>None\<close> when the call does not
  await what has settled.
\<close>

definition resolve ::
  "pending \<Rightarrow> agent list fetch_result \<Rightarrow> task list fetch_result \<Rightarrow> event list fetch_result \<Rightarrow>
   dashboard \<Rightarrow> (pending option \<times> dashboard) option" where
  "resolve p a t e st =
     (case p of
        LoadData r ws \<Rightarrow> Some (loadData_settled r ws a t e st)
      | LoadBody r ws c a' t' e' \<Rightarrow> None
      | Refresh ws \<Rightarrow> Some (None, refresh_resume a t e st))"

definition read_body :: "pending \<Rightarrow> dashboard \<Rightarrow> (pending option \<times> dashboard) option" where
  "read_body p st =
     (case p of
        LoadData r ws \<Rightarrow> None
      | LoadBody r ws c a t e \<Rightarrow> Some (loadData_body r ws c a t e st)
      | Refresh ws \<Rightarrow> None)"

text \<open>The suspended call number \<open>i\<close> is replaced by its continuation, or removed.\<close>

definition put_pending :: "nat \<Rightarrow> pending option \<Rightarrow> dashboard \<Rightarrow> dashboard" where
  "put_pending i p st =
     st\<lparr>in_flight :=
          (case p of
             None \<Rightarrow> take i (in_flight st) @ drop (Suc i) (in_flight st)
           | Some p' \<Rightarrow> (in_flight st)[i := p'])\<rparr>"

text \<open>One event; \<open>None\<close> when the event cannot occur in the state.\<close>

fun step :: "dash_event \<Rightarrow> dashboard \<Rightarrow> dashboard option" where
  "step (Mount ws) st =
     (if current_run st = None then Some (effect_sync ws (effect_load ws st)) else None)"
| "step Cleanup st =
     (case current_run st of
        None \<Rightarrow> None
      | Some r \<Rightarrow> Some ((cleanup_sync (cleanup_load r st))\<lparr>current_run := None\<rparr>))"
| "step (SseOpen s) st =
     (case map_of (open_sources st) s of None \<Rightarrow> None | Some ws \<Rightarrow> Some (onopen st))"
| "step (SseMessage s d) st =
     (case map_of (open_sources st) s of None \<Rightarrow> None | Some ws \<Rightarrow> Some (onmessage ws d st))"
| "step (SseError s) st =
     (case map_of (open_sources st) s of None \<Rightarrow> None | Some ws \<Rightarrow> Some (onerror s ws st))"
| "step (Tick h) st =
     (case map_of (active_timers st) h of None \<Rightarrow> None | Some ws \<Rightarrow> Some (refresh_start ws st))"
| "step (Resolve i a t e) st =
     (if i < length (in_flight st)
      then (case resolve (in_flight st ! i) a t e st of
              None \<Rightarrow> None
            | Some (p, st') \<Rightarrow> Some (put_pending i p st'))
      else None)"
| "step (BodyRead i) st =
     (if i < length (in_flight st)
      then (case read_body (in_flight st ! i) st of
              None \<Rightarrow> None
            | Some (p, st') \<Rightarrow> Some (put_pending i p st'))
      else None)"

fun run :: "dash_event list \<Rightarrow> dashboard \<Rightarrow> dashboard option" where
  "run [] st = Some st"
| "run (ev # evs) st = (case step ev st of None \<Rightarrow> None | Some st' \<Rightarrow> run evs st')"

text \<open>
  The component owns its resources through its two references: the timers that are not
  cleared are exactly the one in \<^verbatim>\<open>pollingIntervalRef\<close>, an event source that is not
  closed is the one in \<^verbatim>\<open>eventSourceRef\<close>, and between a cleanup and the next run
  there is neither.
\<close>

definition timer_owned :: "dashboard \<Rightarrow> bool" where
  "timer_owned st =
     (map fst (active_timers st) = (case pollingIntervalRef st of None \<Rightarrow> [] | Some h \<Rightarrow> [h]))"

definition owns_resources :: "dashboard \<Rightarrow> bool" where
  "owns_resources st =
     (timer_owned st
      \<and> length (open_sources st) \<le> 1
      \<and> list_all (\<lambda>p. eventSourceRef st = Some (fst p)) (open_sources st)
      \<and> (current_run st = None \<longrightarrow> active_timers st = [] \<and> open_sources st = []))"

text \<open>A sequence of calls of the scheduler's two operations.\<close>

datatype poll_call = Start "string option" | Stop

fun poll_calls :: "poll_call list \<Rightarrow> dashboard \<Rightarrow> dashboard" where
  "poll_calls [] st = st"
| "poll_calls (Start ws # cs) st = poll_calls cs (startPolling ws st)"
| "poll_calls (Stop # cs) st = poll_calls cs (stopPolling st)"

section \<open>The workspace page (WorkspacePage)\<close>

datatype poll = EventPoll | TaskPoll | ConnectionCheck

text \<open>
  The shared store the page writes to, with the two flags the page sets, and the timers
  the page has armed: the interval timers that are not cleared, and the one-shot timers
  (\<^verbatim>\<open>setTimeout\<close>) that have neither fired nor been cleared.
\<close>

record page = client_state +
  isOnline :: bool
  isLoading :: bool
  intervals :: "(nat \<times> poll) list"
  timeouts :: "nat list"

definition page_init :: page where
  "page_init = \<lparr>agents = [], tasks = [], events = [], writes = [], console = [], fetches = [],
                 fresh = 1, isOnline = False, isLoading = True, intervals = [],
                 timeouts = []\<rparr>"

definition setIsOnline :: "bool \<Rightarrow> page \<Rightarrow> page" where
  "setIsOnline b st = st\<lparr>isOnline := b\<rparr>"

definition setIsLoading :: "bool \<Rightarrow> page \<Rightarrow> page" where
  "setIsLoading b st = st\<lparr>isLoading := b\<rparr>"

subsection \<open>\<^verbatim>\<open>loadData\<close>\<close>

text \<open>The three fetches of \<^verbatim>\<open>loadData\<close>, for \<^verbatim>\<open>workspaceId = workspace.id\<close>.\<close>

definition page_loadData_start :: "string \<Rightarrow> page \<Rightarrow> page" where
  "page_loadData_start workspaceId st =
     fetch page_loadData_events_url
       (fetch (''/api/tasks?workspace_id='' @ workspaceId)
          (fetch (''/api/agents?workspace_id='' @ workspaceId) st))"

text \<open>
  \<^verbatim>\<open>loadData\<close> after its \<^verbatim>\<open>Promise.all\<close> has settled, with its
  \<^verbatim>\<open>finally { setIsLoading(false); }\<close>.
\<close>

definition page_loadData_resume ::
  "agent list fetch_result \<Rightarrow> task list fetch_result \<Rightarrow> event list fetch_result \<Rightarrow>
   page \<Rightarrow> page" where
  "page_loadData_resume a t e st =
     setIsLoading False (try_write_responses ''Failed to load data:'' a t e st)"

subsection \<open>The connectivity check\<close>

text \<open>
  How the status endpoint behaves for one request. It never answers, or the fetch
  promise settles after so many milliseconds: it rejects (\<open>Fails\<close>), or it resolves
  to a response with its \<^verbatim>\<open>ok\<close> flag. Reading the body of that response
  (\<^verbatim>\<open>json()\<close>) never ends (\<open>Hangs\<close>), or ends after so many further milliseconds
  with the parsed value, or by rejecting (\<open>None\<close>).
\<close>

datatype 'a body = Hangs | Reads nat "'a option"

datatype 'a reply = Fails | Replies bool "'a body"

datatype 'a server = Never | After nat "'a reply"

definition status_timeout_ms :: nat where
  "status_timeout_ms = 5000"

text \<open>The three ways in which the \<^verbatim>\<open>await\<close> of a fetch armed with an abort timer ends.\<close>

datatype fetch_end = TimerFired | FetchRejected | FetchResolved bool

text \<open>
  \<^verbatim>\<open>const controller = new AbortController();
  const timeoutId = setTimeout(() => controller.abort(), 5000);
  const openclawRes = await fetch('/api/openclaw/status', { signal: controller.signal });\<close>
  The request settles by itself before the timer fires, or the timer fires, aborts it,
  and the promise rejects. The result is the time at which the \<^verbatim>\<open>await\<close> of the fetch
  ends, and how. A request that would settle at the very moment the timer fires is
  counted as aborted; the properties below do not rely on that choice.
\<close>

definition fetch_with_abort :: "nat \<Rightarrow> 'a server \<Rightarrow> nat \<times> fetch_end" where
  "fetch_with_abort ms srv =
     (case srv of
        Never \<Rightarrow> (ms, TimerFired)
      | After d r \<Rightarrow>
          (if d < ms
           then (d, case r of Fails \<Rightarrow> FetchRejected | Replies ok b \<Rightarrow> FetchResolved ok)
           else (ms, TimerFired)))"

text \<open>\<^verbatim>\<open>clearTimeout(timeoutId)\<close>\<close>

definition clearTimeout :: "nat \<Rightarrow> page \<Rightarrow> page" where
  "clearTimeout h st = st\<lparr>timeouts := filter (\<lambda>k. k \<noteq> h) (timeouts st)\<rparr>"

text \<open>A one-shot timer that fires is armed no longer.\<close>

definition timeout_fired :: "nat \<Rightarrow> page \<Rightarrow> page" where
  "timeout_fired h st = st\<lparr>timeouts := filter (\<lambda>k. k \<noteq> h) (timeouts st)\<rparr>"

text \<open>
  \<^verbatim>\<open>checkOpenClaw\<close> up to its first \<^verbatim>\<open>await\<close>: the abort timer is armed and the
  request is issued. The result holds the handle \<^verbatim>\<open>timeoutId\<close>.
\<close>

definition checkOpenClaw_start :: "page \<Rightarrow> page \<times> nat" where
  "checkOpenClaw_start st =
     (let timeoutId = fresh st
      in (fetch status_url (st\<lparr>fresh := Suc timeoutId, timeouts := timeouts st @ [timeoutId]\<rparr>),
          timeoutId))"

text \<open>
  \<^verbatim>\<open>checkOpenClaw\<close> when the \<^verbatim>\<open>await\<close> of its fetch ends. The timer fired:
  the request is aborted, the promise rejects, \<^verbatim>\<open>catch { setIsOnline(false); }\<close>.
  The request rejected by itself: the same \<^verbatim>\<open>catch\<close>, and the timer stays armed,
  since \<^verbatim>\<open>clearTimeout\<close> is not reached. The request resolved:
  \<^verbatim>\<open>clearTimeout(timeoutId);\<close> and then \<^verbatim>\<open>if (openclawRes.ok)\<close>. The first
  component tells whether the call goes on to await \<^verbatim>\<open>openclawRes.json()\<close>, which it
  does with the timer cleared.
\<close>

definition checkOpenClaw_fetch_end :: "nat \<Rightarrow> fetch_end \<Rightarrow> page \<Rightarrow> bool \<times> page" where
  "checkOpenClaw_fetch_end timeoutId how st =
     (case how of
        TimerFired \<Rightarrow> (False, setIsOnline False (timeout_fired timeoutId st))
      | FetchRejected \<Rightarrow> (False, setIsOnline False st)
      | FetchResolved ok \<Rightarrow> (ok, clearTimeout timeoutId st))"

text \<open>
  \<^verbatim>\<open>const status = await res.json(); setIsOnline(status.connected);\<close> when
  \<^verbatim>\<open>json()\<close> settles, inside \<^verbatim>\<open>try { ... } catch { setIsOnline(false); }\<close>: the same
  lines in \<^verbatim>\<open>checkOpenClaw\<close> and in the callback of the \<^verbatim>\<open>connectionCheck\<close> interval.
\<close>

definition status_body :: "bool option \<Rightarrow> page \<Rightarrow> page" where
  "status_body v st =
     (case v of None \<Rightarrow> setIsOnline False st | Some connected \<Rightarrow> setIsOnline connected st)"

text \<open>
  \<^verbatim>\<open>checkOpenClaw\<close> from its call to its end, against one behaviour of the endpoint:
  the time at which it ends (\<open>None\<close> when it never does) and the state it leaves.
\<close>

definition checkOpenClaw :: "bool server \<Rightarrow> page \<Rightarrow> nat option \<times> page" where
  "checkOpenClaw srv st =
     (case checkOpenClaw_start st of (st1, timeoutId) \<Rightarrow>
      (case fetch_with_abort status_timeout_ms srv of (t, how) \<Rightarrow>
       (case checkOpenClaw_fetch_end timeoutId how st1 of (reads, st2) \<Rightarrow>
          (if \<not> reads then (Some t, st2)
           else (case srv of
                   After d (Replies ok (Reads b v)) \<Rightarrow> (Some (t + b), status_body v st2)
                 | _ \<Rightarrow> (None, st2))))))"

text \<open>
  The callback of the \<^verbatim>\<open>connectionCheck\<close> interval, which passes no abort signal,
  from its call to its end: the time at which it ends (\<open>None\<close> when it never does) and
  the state it leaves.
\<close>

definition connectionCheck :: "bool server \<Rightarrow> page \<Rightarrow> nat option \<times> page" where
  "connectionCheck srv st =
     (let st1 = fetch status_url st
      in case srv of
           Never \<Rightarrow> (None, st1)
         | After d r \<Rightarrow>
             (case r of
                Fails \<Rightarrow> (Some d, setIsOnline False st1)
              | Replies ok body \<Rightarrow>
                  (if \<not> ok then (Some d, st1)
                   else (case body of
                           Hangs \<Rightarrow> (None, st1)
                         | Reads b v \<Rightarrow> (Some (d + b), status_body v st1)))))"

subsection \<open>The event and task pollers\<close>

text \<open>The callback of the \<^verbatim>\<open>eventPoll\<close> interval, for a fetch that settles to \<open>r\<close>.\<close>

definition eventPoll :: "event list fetch_result \<Rightarrow> page \<Rightarrow> page" where
  "eventPoll r st =
     (let st1 = fetch eventPoll_url st
      in case r of
           Rejected \<Rightarrow> console_error ''Failed to poll events:'' st1
         | Response ok body \<Rightarrow>
             (if ok then (case body of None \<Rightarrow> console_error ''Failed to poll events:'' st1
                          | Some v \<Rightarrow> setEvents v st1)
              else st1))"

text \<open>
  The callback of the \<^verbatim>\<open>taskPoll\<close> interval after its fetch has settled to \<open>r\<close>:
  the current tasks are read from the store at that moment.
\<close>

definition taskPoll_settled :: "task list fetch_result \<Rightarrow> page \<Rightarrow> page" where
  "taskPoll_settled r st =
     (case r of
        Rejected \<Rightarrow> console_error ''Failed to poll tasks:'' st
      | Response ok body \<Rightarrow>
          (if ok then (case body of None \<Rightarrow> console_error ''Failed to poll tasks:'' st
                       | Some newTasks \<Rightarrow>
                           (let currentTasks = tasks st
                            in if hasChanges newTasks currentTasks then setTasks newTasks st
                               else st))
           else st))"


subsection \<open>The effect and its cleanup\<close>







section \<open>Concrete inputs\<close>

definition agent_noid :: agent where
  "agent_noid = \<lparr>a_id = [], a_status = ''working''\<rparr>"

definition agent_a1 :: agent where
  "agent_a1 = \<lparr>a_id = ''a1'', a_status = ''offline''\<rparr>"

definition agent_a1_twin :: agent where
  "agent_a1_twin = \<lparr>a_id = ''a1'', a_status = ''working''\<rparr>"

definition agent_b1 :: agent where
  "agent_b1 = \<lparr>a_id = ''b1'', a_status = ''standby''\<rparr>"

definition task_noid_review :: task where
  "task_noid_review = \<lparr>t_id = ''t0'', t_status = ''review'', assigned_agent_id = Some [],
                         updated_at = ''2026-01-01T00:00:00Z''\<rparr>"

definition task_a1 :: task where
  "task_a1 = \<lparr>t_id = ''t1'', t_status = ''in_progress'', assigned_agent_id = Some ''a1'',
                updated_at = ''2026-01-01T00:00:00Z''\<rparr>"

definition task_a1_later :: task where
  "task_a1_later = \<lparr>t_id = ''t1'', t_status = ''testing'', assigned_agent_id = Some ''a1'',
                      updated_at = ''2026-01-02T00:00:00Z''\<rparr>"

definition task_b1 :: task where
  "task_b1 = \<lparr>t_id = ''t2'', t_status = ''assigned'', assigned_agent_id = Some ''b1'',
                updated_at = ''2026-01-01T00:00:00Z''\<rparr>"

definition event_1 :: event where
  "event_1 = \<lparr>e_id = ''e1'', e_type = ''task_created''\<rparr>"

text \<open>The dashboard after its first mount for workspace \<open>A\<close>.\<close>

definition mounted_A :: dashboard where
  "mounted_A = effect_sync (Some ''A'') (effect_load (Some ''A'') init)"

text \<open>
  A switch from workspace \<open>A\<close> to workspace \<open>B\<close> while a refresh of \<open>A\<close> is in
  flight: the stream of \<open>A\<close> opens and delivers a data line, the scope changes, the
  initial load of \<open>B\<close> settles and reads its three bodies, then the initial load of
  \<open>A\<close> settles late.
\<close>

definition switch_A_to_B :: "dash_event list" where
  "switch_A_to_B =
     [Mount (Some ''A''), SseOpen 2, SseMessage 2 ''task_updated'', Cleanup, Mount (Some ''B''),
      Resolve 2 (Response True (Some [agent_b1])) (Response True (Some [task_b1]))
        (Response True (Some [])),
      BodyRead 2, BodyRead 2, BodyRead 2,
      Resolve 0 (Response True (Some [agent_a1])) (Response True (Some [task_a1]))
        (Response True (Some [event_1]))]"

text \<open>The same, and then the refresh of \<open>A\<close> settles.\<close>

definition late_refresh_of_A :: "dash_event list" where
  "late_refresh_of_A =
     switch_A_to_B @
     [Resolve 0 (Response True (Some [agent_a1])) (Response True (Some [task_a1]))
        (Response True (Some [event_1]))]"

text \<open>
  The initial load of \<open>A\<close> settles and passes its guard, the scope changes to \<open>B\<close>,
  and then the three bodies of \<open>A\<close> are read.
\<close>

definition bodies_of_A_read_late :: "dash_event list" where
  "bodies_of_A_read_late =
     [Mount (Some ''A''),
      Resolve 0 (Response True (Some [agent_a1])) (Response True (Some [task_a1]))
        (Response True (Some [event_1])),
      Cleanup, Mount (Some ''B''),
      BodyRead 0, BodyRead 0, BodyRead 0]"

text \<open>The page store showing the gateway as connected.\<close>

definition page_online :: page where
  "page_online = page_init\<lparr>isOnline := True\<rparr>"

section \<open>Properties of the blocked-agent classification\<close>

lemma blocked_by_tasks_iff:
  "x \<in> blocked_by_tasks tks ids \<longleftrightarrow>
     x \<in> ids \<or> (x \<noteq> [] \<and> (\<exists>t \<in> set tks. assigned_agent_id t = Some x \<and>
                    (t_status t = ''testing'' \<or> t_status t = ''review'')))"
  by (induction tks arbitrary: ids) (auto simp: truthy_def split: option.splits)

lemma blocked_offline_iff:
  "x \<in> blocked_offline ags tks ids \<longleftrightarrow>
     x \<in> ids \<or> (\<exists>a \<in> set ags. a_id a = x \<and> a_status a = ''offline'' \<and>
                    hasAssignedActiveTask a tks)"
  by (induction ags arbitrary: ids) auto

lemma isBlocked_iff:
  "isBlocked a ags tks \<longleftrightarrow>
     (a_id a \<noteq> [] \<and> (\<exists>t \<in> set tks. assigned_agent_id t = Some (a_id a) \<and>
                    (t_status t = ''testing'' \<or> t_status t = ''review'')))
     \<or> (\<exists>b \<in> set ags. a_id b = a_id a \<and> a_status b = ''offline'' \<and>
                    hasAssignedActiveTask b tks)"
  by (simp add: isBlocked_def blockedAgentIds_def blocked_offline_iff blocked_by_tasks_iff)

text \<open>
  Claim C9, as the code has it. In a collection whose agent ids are pairwise distinct, an
  agent is classified as blocked if and only if its id is not empty and some task
  assigned to it has status testing or review, or the agent is offline and some task
  assigned to it has a status other than done.
\<close>

theorem c9_blocked_iff_unique_ids:
  assumes "distinct (map a_id ags)" and "a \<in> set ags"
  shows "isBlocked a ags tks \<longleftrightarrow>
     (a_id a \<noteq> [] \<and> (\<exists>t \<in> set tks. assigned_agent_id t = Some (a_id a) \<and>
                    (t_status t = ''testing'' \<or> t_status t = ''review'')))
     \<or> (a_status a = ''offline'' \<and>
         (\<exists>t \<in> set tks. assigned_agent_id t = Some (a_id a) \<and> t_status t \<noteq> ''done''))"
proof -
  have same: "b = a" if "b \<in> set ags" and "a_id b = a_id a" for b
    using assms that by (meson distinct_map inj_onD)
  have "(\<exists>b \<in> set ags. a_id b = a_id a \<and> a_status b = ''offline'' \<and> hasAssignedActiveTask b tks)
        \<longleftrightarrow> (a_status a = ''offline'' \<and> hasAssignedActiveTask a tks)"
    using assms(2) same by blast
  then show ?thesis
    by (simp add: isBlocked_iff hasAssignedActiveTask_def list_ex_iff)
qed

text \<open>
  Two agents and two tasks: the offline agent with a task in progress is blocked, the
  agent on standby with an assigned task is not.
\<close>

theorem c9_blocked_iff_unique_ids_witness:
  "distinct (map a_id [agent_a1, agent_b1]) \<and> agent_a1 \<in> set [agent_a1, agent_b1]
   \<and> isBlocked agent_a1 [agent_a1, agent_b1] [task_a1, task_b1]
   \<and> \<not> isBlocked agent_b1 [agent_a1, agent_b1] [task_a1, task_b1]"
  using c9_blocked_iff_unique_ids [of "[agent_a1, agent_b1]" agent_a1 "[task_a1, task_b1]"]
    c9_blocked_iff_unique_ids [of "[agent_a1, agent_b1]" agent_b1 "[task_a1, task_b1]"]
  by (simp add: agent_a1_def agent_b1_def task_a1_def task_b1_def)

text \<open>
  The predicate as the specification words it differs from the code in two places. The
  guard \<^verbatim>\<open>if (!task.assigned_agent_id) continue;\<close> skips a task in review whose
  assignee is the empty string, so the agent with the empty id is not blocked. And the
  set holds ids, so a working agent that shares its id with an offline agent is blocked
  with it.
\<close>

theorem c9_spec_blocked_counterexample:
  "spec_blocked agent_noid [task_noid_review]
   \<and> \<not> isBlocked agent_noid [agent_noid] [task_noid_review]
   \<and> \<not> spec_blocked agent_a1_twin [task_a1]
   \<and> isBlocked agent_a1_twin [agent_a1_twin, agent_a1] [task_a1]"
  by (simp add: spec_blocked_def isBlocked_def blockedAgentIds_def hasAssignedActiveTask_def
      truthy_def agent_noid_def task_noid_review_def agent_a1_twin_def agent_a1_def task_a1_def)

section \<open>Properties of the task poller\<close>

lemma task_changed_iff:
  "task_changed cur t \<longleftrightarrow>
     (\<forall>c \<in> set cur. t_id c \<noteq> t_id t)
     \<or> (\<exists>c. find (\<lambda>c. t_id c = t_id t) cur = Some c \<and> updated_at c \<noteq> updated_at t)"
proof (cases "find (\<lambda>ct. t_id ct = t_id t) cur")
  case None
  then have "\<forall>c \<in> set cur. t_id c \<noteq> t_id t"
    by (auto simp: find_None_iff)
  with None show ?thesis
    by (simp add: task_changed_def)
next
  case (Some c)
  then have "c \<in> set cur" and "t_id c = t_id t"
    by (auto simp: find_Some_iff)
  with Some show ?thesis
    by (auto simp: task_changed_def)
qed

text \<open>
  Claim C10. When a task poll succeeds (the response is ok and its body is read), the
  poller replaces the tasks collection if and only if the fetched list differs from the
  current one in length, or some fetched task is absent from the current list, or its
  counterpart there (the first current task with the same id) has another
  \<^verbatim>\<open>updated_at\<close>. Otherwise the store is left as it was.
\<close>

theorem c10_task_poll_writes_only_on_change:
  fixes newTasks :: "task list" and st :: page
  defines "differs \<equiv>
     length newTasks \<noteq> length (tasks st)
     \<or> (\<exists>t \<in> set newTasks.
           (\<forall>c \<in> set (tasks st). t_id c \<noteq> t_id t)
           \<or> (\<exists>c. find (\<lambda>c. t_id c = t_id t) (tasks st) = Some c
                   \<and> updated_at c \<noteq> updated_at t))"
  shows "(differs \<longrightarrow> taskPoll_settled (Response True (Some newTasks)) st = setTasks newTasks st
                      \<and> tasks (taskPoll_settled (Response True (Some newTasks)) st) = newTasks
                      \<and> writes (taskPoll_settled (Response True (Some newTasks)) st)
                          = writes st @ [Tasks])
       \<and> (\<not> differs \<longrightarrow> taskPoll_settled (Response True (Some newTasks)) st = st)"
  unfolding differs_def
  by (auto simp: taskPoll_settled_def hasChanges_def list_ex_iff task_changed_iff setTasks_def
      Let_def)

text \<open>
  A poll that returns the stored task with a later \<^verbatim>\<open>updated_at\<close> replaces the
  collection; a poll that returns the stored task as it is leaves the store alone.
\<close>

theorem c10_task_poll_writes_only_on_change_witness:
  "tasks (taskPoll_settled (Response True (Some [task_a1_later])) (page_init\<lparr>tasks := [task_a1]\<rparr>))
     = [task_a1_later]
   \<and> taskPoll_settled (Response True (Some [task_a1])) (page_init\<lparr>tasks := [task_a1]\<rparr>)
     = page_init\<lparr>tasks := [task_a1]\<rparr>"
  using c10_task_poll_writes_only_on_change [of "[task_a1_later]" "page_init\<lparr>tasks := [task_a1]\<rparr>"]
    c10_task_poll_writes_only_on_change [of "[task_a1]" "page_init\<lparr>tasks := [task_a1]\<rparr>"]
  by (simp add: task_a1_def task_a1_later_def setTasks_def)

section \<open>The dashboard owns its timer and its connection\<close>

text \<open>
  Settling a request changes neither the timers, nor the event sources, nor the two
  references.
\<close>

lemma try_write_responses_frame:
  fixes st :: dashboard
  shows "active_timers (try_write_responses m a t e st) = active_timers st"
    and "open_sources (try_write_responses m a t e st) = open_sources st"
    and "pollingIntervalRef (try_write_responses m a t e st) = pollingIntervalRef st"
    and "eventSourceRef (try_write_responses m a t e st) = eventSourceRef st"
    and "current_run (try_write_responses m a t e st) = current_run st"
  by (auto simp: try_write_responses_def write_responses_def write_agents_def write_tasks_def
      write_events_def setAgents_def setTasks_def setEvents_def console_error_def
      split: fetch_result.splits option.splits sum.splits)

lemma loadData_finally_frame:
  shows "active_timers (loadData_finally r st) = active_timers st"
    and "open_sources (loadData_finally r st) = open_sources st"
    and "pollingIntervalRef (loadData_finally r st) = pollingIntervalRef st"
    and "eventSourceRef (loadData_finally r st) = eventSourceRef st"
    and "current_run (loadData_finally r st) = current_run st"
    and "active_timers (loadData_catch r st) = active_timers st"
    and "open_sources (loadData_catch r st) = open_sources st"
    and "pollingIntervalRef (loadData_catch r st) = pollingIntervalRef st"
    and "eventSourceRef (loadData_catch r st) = eventSourceRef st"
    and "current_run (loadData_catch r st) = current_run st"
  by (simp_all add: loadData_finally_def loadData_catch_def console_error_def)

lemma owns_resources_frame:
  assumes "owns_resources st"
    and "active_timers st' = active_timers st" and "open_sources st' = open_sources st"
    and "pollingIntervalRef st' = pollingIntervalRef st"
    and "eventSourceRef st' = eventSourceRef st" and "current_run st' = current_run st"
  shows "owns_resources st'"
  using assms by (simp add: owns_resources_def timer_owned_def)

lemma owns_resources_put_pending:
  "owns_resources st \<Longrightarrow> owns_resources (put_pending i p st)"
  by (erule owns_resources_frame) (simp_all add: put_pending_def)

lemma owns_resources_loadData_finally:
  "owns_resources st \<Longrightarrow> owns_resources (loadData_finally r st)"
  by (erule owns_resources_frame) (simp_all add: loadData_finally_frame)

lemma owns_resources_loadData_catch:
  "owns_resources st \<Longrightarrow> owns_resources (loadData_catch r st)"
  by (erule owns_resources_frame) (simp_all add: loadData_finally_frame)

lemma owns_resources_loadData_await:
  "owns_resources st \<Longrightarrow> owns_resources (snd (loadData_await r ws prev a t e st))"
  by (simp add: loadData_await_def owns_resources_loadData_finally split: option.splits)

lemma owns_resources_loadData_settled:
  "owns_resources st \<Longrightarrow> owns_resources (snd (loadData_settled r ws a t e st))"
  by (simp add: loadData_settled_def owns_resources_loadData_await
      owns_resources_loadData_catch owns_resources_loadData_finally)

lemma owns_resources_setters:
  fixes st :: dashboard
  assumes "owns_resources st"
  shows "owns_resources (setAgents va st)" and "owns_resources (setTasks vt st)"
    and "owns_resources (setEvents ve st)"
  using assms
  by (simp_all add: owns_resources_def timer_owned_def setAgents_def setTasks_def
      setEvents_def)

lemma owns_resources_loadData_body:
  "owns_resources st \<Longrightarrow> owns_resources (snd (loadData_body r ws c a t e st))"
  by (simp add: loadData_body_def owns_resources_loadData_await
      owns_resources_loadData_catch owns_resources_setters
      split: collection.splits fetch_result.splits option.splits)

lemma owns_resources_refresh_resume:
  "owns_resources st \<Longrightarrow> owns_resources (refresh_resume a t e st)"
  by (erule owns_resources_frame)
    (simp_all add: refresh_resume_def try_write_responses_frame)

lemma owns_resources_resolve:
  assumes "owns_resources st" and "resolve p a t e st = Some (q, st')"
  shows "owns_resources st'"
proof (cases p)
  case (LoadData r ws)
  with assms(2) have "snd (loadData_settled r ws a t e st) = st'"
    by (auto simp: resolve_def)
  with assms(1) show ?thesis
    using owns_resources_loadData_settled by blast
next
  case (LoadBody r ws c a' t' e')
  with assms(2) show ?thesis
    by (simp add: resolve_def)
next
  case (Refresh ws)
  with assms show ?thesis
    by (auto simp: resolve_def owns_resources_refresh_resume)
qed

lemma owns_resources_read_body:
  assumes "owns_resources st" and "read_body p st = Some (q, st')"
  shows "owns_resources st'"
proof (cases p)
  case (LoadBody r ws c a t e)
  with assms(2) have "snd (loadData_body r ws c a t e st) = st'"
    by (auto simp: read_body_def)
  with assms(1) show ?thesis
    using owns_resources_loadData_body by blast
qed (use assms(2) in \<open>simp_all add: read_body_def\<close>)

lemma filter_owned:
  "list_all (\<lambda>p. Some x = Some (fst p)) xs \<Longrightarrow> filter (\<lambda>p. fst p \<noteq> x) xs = []"
  by (auto simp: list_all_iff filter_empty_conv)

lemma none_owned: "list_all (\<lambda>p. False) xs \<Longrightarrow> xs = []"
  by (cases xs) auto

lemma map_of_owned:
  "list_all (\<lambda>p. r = Some (fst p)) xs \<Longrightarrow> map_of xs s = Some ws \<Longrightarrow> r = Some s"
  by (auto simp: list_all_iff dest!: map_of_SomeD)

lemma owns_resources_step:
  assumes "owns_resources st" and "step ev st = Some st'"
  shows "owns_resources st'"
proof (cases ev)
  case (Mount ws)
  with assms show ?thesis
    by (auto simp: owns_resources_def timer_owned_def effect_sync_def effect_load_def startPolling_def
        connectSSE_def fetch_def Let_def split: if_splits option.splits)
next
  case Cleanup
  with assms show ?thesis
    by (auto simp: owns_resources_def timer_owned_def cleanup_sync_def cleanup_load_def stopPolling_def
        close_source_def clearInterval_def filter_owned
        split: option.splits dest: none_owned)
next
  case (SseOpen s)
  with assms show ?thesis
    by (auto simp: owns_resources_def timer_owned_def onopen_def stopPolling_def clearInterval_def
        split: option.splits)
next
  case (SseMessage s d)
  with assms show ?thesis
    by (auto simp: owns_resources_def timer_owned_def onmessage_def refresh_start_def fetch_def Let_def
        split: option.splits if_splits)
next
  case (SseError s)
  with assms obtain ws where ws: "map_of (open_sources st) s = Some ws"
    and st': "st' = onerror s ws st"
    by (auto split: option.splits)
  from assms(1) ws have "eventSourceRef st = Some s"
    by (auto simp: owns_resources_def timer_owned_def dest: map_of_owned)
  with assms(1) have closed: "filter (\<lambda>p. fst p \<noteq> s) (open_sources st) = []"
    by (simp add: owns_resources_def timer_owned_def filter_owned)
  show ?thesis
    using assms(1) closed ws unfolding st'
    by (auto simp: owns_resources_def timer_owned_def onerror_def startPolling_def close_source_def Let_def
        split: option.splits)
next
  case (Tick h)
  with assms show ?thesis
    by (auto simp: owns_resources_def timer_owned_def refresh_start_def fetch_def Let_def split: option.splits)
next
  case (Resolve i a t e)
  with assms show ?thesis
    by (auto split: if_splits option.splits
        intro: owns_resources_put_pending owns_resources_resolve)
next
  case (BodyRead i)
  with assms show ?thesis
    by (auto split: if_splits option.splits
        intro: owns_resources_put_pending owns_resources_read_body)
qed

lemma owns_resources_run:
  "owns_resources st \<Longrightarrow> run evs st = Some st' \<Longrightarrow> owns_resources st'"
  by (induction evs arbitrary: st) (auto split: option.splits dest: owns_resources_step)

lemma owns_resources_init: "owns_resources init"
  by (simp add: owns_resources_def timer_owned_def init_def)


lemma timer_owned_poll_calls: "timer_owned st \<Longrightarrow> timer_owned (poll_calls cs st)"
proof (induction cs arbitrary: st)
  case Nil
  then show ?case by simp
next
  case (Cons c cs)
  have "timer_owned (startPolling ws st)" for ws
    using Cons.prems
    by (auto simp: timer_owned_def startPolling_def Let_def split: option.splits)
  moreover have "timer_owned (stopPolling st)"
    using Cons.prems
    by (auto simp: timer_owned_def stopPolling_def clearInterval_def split: option.splits)
  ultimately show ?case
    by (cases c) (simp_all add: Cons.IH)
qed

lemma timer_owned_length: "timer_owned st \<Longrightarrow> length (active_timers st) \<le> 1"
proof -
  assume "timer_owned st"
  then have "length (map fst (active_timers st)) \<le> 1"
    by (simp add: timer_owned_def split: option.splits)
  then show ?thesis by simp
qed

lemmas dash_defs = init_def effect_sync_def effect_load_def startPolling_def
      connectSSE_def fetch_def Let_def refresh_start_def cleanup_sync_def cleanup_load_def
      stopPolling_def clearInterval_def close_source_def resolve_def read_body_def put_pending_def
      loadData_settled_def loadData_body_def loadData_await_def loadData_finally_def
      loadData_catch_def next_await_def response_ok_def
      refresh_resume_def try_write_responses_def write_responses_def write_agents_def
      write_tasks_def write_events_def all_resolved_def setAgents_def setTasks_def
      setEvents_def console_error_def onopen_def onerror_def onmessage_def startsWith_colon_def

lemma run_mounted_A: "run [Mount (Some ''A'')] init = Some mounted_A"
  by (simp add: mounted_A_def init_def)

lemma mounted_A_source: "map_of (open_sources mounted_A) 2 = Some (Some ''A'')"
  by (simp add: mounted_A_def dash_defs)

section \<open>The live channel\<close>

text \<open>
  Claim C1. For every message delivered on an event source that is not closed: when
  its data begins with a colon (a keep-alive), the state is left as it was, so that no
  refresh is invoked; for any other message exactly one refresh is put in flight, and it
  issues three fetches, one for the agents, one for the tasks and one for the events.
\<close>

theorem c1_message_triggers_one_refresh:
  assumes "map_of (open_sources st) s = Some ws"
  shows "\<exists>st'. step (SseMessage s d) st = Some st'
           \<and> (take 1 d = '':'' \<longrightarrow> st' = st)
           \<and> (take 1 d \<noteq> '':'' \<longrightarrow>
                 in_flight st' = in_flight st @ [Refresh ws]
                 \<and> fetches st' = fetches st @ [agents_url ws, tasks_url ws, dashboard_events_url])"
  using assms
  by (cases d) (simp_all add: onmessage_def startsWith_colon_def refresh_start_def fetch_def Let_def)

text \<open>
  On the dashboard mounted for workspace \<open>A\<close>, a keep-alive changes nothing and
  a data line issues the three requests.
\<close>

theorem c1_message_triggers_one_refresh_witness:
  "map_of (open_sources mounted_A) 2 = Some (Some ''A'')
   \<and> step (SseMessage 2 '':'') mounted_A = Some mounted_A
   \<and> map_option fetches (step (SseMessage 2 ''task_updated'') mounted_A)
       = Some (fetches mounted_A @
           [''/api/agents?workspace_id=A'', ''/api/tasks?workspace_id=A'',
            ''/api/events?limit=150''])"
  using c1_message_triggers_one_refresh [OF mounted_A_source, of "'':''"]
    c1_message_triggers_one_refresh [OF mounted_A_source, of "''task_updated''"]
    mounted_A_source
  by (auto simp: agents_url_def tasks_url_def dashboard_events_url_def truthy_def)

text \<open>
  Claim C2. In every state the dashboard can reach, when its event source signals
  open, the connected flag is set and the polling timer is cleared; when the source
  signals an error, the flag is reset, the source is closed and no other source is
  opened, and polling runs afterwards on exactly one timer: the one that was already
  active, or a new one when none was.
\<close>

theorem c2_open_stops_polling_error_starts_it:
  assumes "run evs init = Some st" and "map_of (open_sources st) s = Some ws"
  shows "(\<exists>st1. step (SseOpen s) st = Some st1
            \<and> sseConnected st1 \<and> active_timers st1 = [] \<and> pollingIntervalRef st1 = None)
       \<and> (\<exists>st2. step (SseError s) st = Some st2
            \<and> \<not> sseConnected st2 \<and> open_sources st2 = [] \<and> eventSourceRef st2 = None
            \<and> fresh st2 \<le> Suc (fresh st)
            \<and> (active_timers st \<noteq> [] \<longrightarrow> active_timers st2 = active_timers st)
            \<and> (active_timers st = [] \<longrightarrow> active_timers st2 = [(fresh st, ws)])
            \<and> length (active_timers st2) = 1)"
proof -
  have inv: "owns_resources st"
    using assms(1) owns_resources_init owns_resources_run by blast
  from inv assms(2) have ref: "eventSourceRef st = Some s"
    by (auto simp: owns_resources_def dest: map_of_owned)
  with inv have closed: "filter (\<lambda>p. fst p \<noteq> s) (open_sources st) = []"
    by (simp add: owns_resources_def filter_owned)
  have "sseConnected (onopen st) \<and> active_timers (onopen st) = []
        \<and> pollingIntervalRef (onopen st) = None"
    using inv
    by (auto simp: owns_resources_def timer_owned_def onopen_def stopPolling_def
        clearInterval_def split: option.splits)
  moreover have "\<not> sseConnected (onerror s ws st) \<and> open_sources (onerror s ws st) = []
        \<and> eventSourceRef (onerror s ws st) = None
        \<and> fresh (onerror s ws st) \<le> Suc (fresh st)
        \<and> (active_timers st \<noteq> [] \<longrightarrow> active_timers (onerror s ws st) = active_timers st)
        \<and> (active_timers st = [] \<longrightarrow> active_timers (onerror s ws st) = [(fresh st, ws)])
        \<and> length (active_timers (onerror s ws st)) = 1"
    using inv closed
    by (auto simp: owns_resources_def timer_owned_def onerror_def startPolling_def
        close_source_def Let_def split: option.splits)
  ultimately show ?thesis
    using assms(2) by simp
qed

text \<open>
  After the first mount the source has identity 2: its open event clears the timer
  started at mount, its error event closes it and keeps that timer.
\<close>

theorem c2_open_stops_polling_error_starts_it_witness:
  "run [Mount (Some ''A'')] init = Some mounted_A
   \<and> map_of (open_sources mounted_A) 2 = Some (Some ''A'')
   \<and> map_option active_timers (step (SseOpen 2) mounted_A) = Some []
   \<and> map_option open_sources (step (SseError 2) mounted_A) = Some []
   \<and> map_option active_timers (step (SseError 2) mounted_A) = Some (active_timers mounted_A)"
  using c2_open_stops_polling_error_starts_it [OF run_mounted_A mounted_A_source]
    run_mounted_A mounted_A_source
  by (auto simp: mounted_A_def dash_defs)

section \<open>The poll scheduler\<close>

text \<open>
  Claim C3. In every state the dashboard can reach, starting the scheduler while a
  timer is active changes nothing and leaves exactly one active timer, stopping it
  while no timer is active changes nothing, starting twice is starting once, stopping
  twice is stopping once, and any sequence of start and stop calls leaves at most one
  active timer.
\<close>

theorem c3_polling_start_stop_idempotent:
  assumes "run evs init = Some st"
  shows "(active_timers st \<noteq> [] \<longrightarrow>
            startPolling ws st = st \<and> length (active_timers (startPolling ws st)) = 1)
       \<and> (active_timers st = [] \<longrightarrow> stopPolling st = st)
       \<and> startPolling ws' (startPolling ws st) = startPolling ws st
       \<and> length (active_timers (startPolling ws st)) = 1
       \<and> stopPolling (stopPolling st) = stopPolling st
       \<and> length (active_timers (poll_calls cs st)) \<le> 1"
proof -
  have inv: "timer_owned st"
    using assms owns_resources_init owns_resources_run owns_resources_def by blast
  have "length (active_timers (poll_calls cs st)) \<le> 1"
    using inv timer_owned_poll_calls timer_owned_length by blast
  moreover have "startPolling ws' (startPolling ws st) = startPolling ws st"
    by (simp add: startPolling_def Let_def split: option.splits)
  moreover have "stopPolling (stopPolling st) = stopPolling st"
    by (simp add: stopPolling_def clearInterval_def split: option.splits)
  moreover have "active_timers st \<noteq> [] \<longrightarrow>
            startPolling ws st = st \<and> length (active_timers (startPolling ws st)) = 1"
    using inv by (auto simp: timer_owned_def startPolling_def split: option.splits)
  moreover have "active_timers st = [] \<longrightarrow> stopPolling st = st"
    using inv by (auto simp: timer_owned_def stopPolling_def split: option.splits)
  moreover have "length (active_timers (startPolling ws st)) = 1"
    using inv by (auto simp: timer_owned_def startPolling_def Let_def split: option.splits)
  ultimately show ?thesis by blast
qed

text \<open>
  On the mounted dashboard polling already runs: another start changes nothing, and
  two stops followed by two starts leave one timer.
\<close>

theorem c3_polling_start_stop_idempotent_witness:
  "run [Mount (Some ''A'')] init = Some mounted_A
   \<and> startPolling (Some ''A'') mounted_A = mounted_A
   \<and> length (active_timers (poll_calls [Stop, Stop, Start (Some ''A''), Start (Some ''A'')] mounted_A)) \<le> 1"
  using c3_polling_start_stop_idempotent [OF run_mounted_A, of "Some ''A''" "Some ''A''" "[Stop, Stop, Start (Some ''A''), Start (Some ''A'')]"]
    run_mounted_A
  by (auto simp: mounted_A_def dash_defs)

section \<open>Teardown\<close>








section \<open>Writing fetch results to the store\<close>

text \<open>
  Claim C4, as the code has it, for \<^verbatim>\<open>refresh\<close> of the dashboard and
  \<^verbatim>\<open>loadData\<close> of the workspace page. When the three fetches all resolve and the
  bodies of the ok responses can be read, each collection is replaced if and only if its
  own response is ok; a collection whose response is not ok keeps its value, and nothing
  is logged. When any of the three fetches rejects, no collection is replaced, whatever
  the other two returned; the failure is logged to the console and goes no further.
\<close>

theorem c4_collections_written_per_response:
  fixes st :: dashboard and p :: page
  assumes "a = Rejected \<or> t = Rejected \<or> e = Rejected
           \<or> (a = Response aok ab \<and> t = Response tok tb \<and> e = Response eok eb
               \<and> (aok \<longrightarrow> ab = Some av) \<and> (tok \<longrightarrow> tb = Some tv) \<and> (eok \<longrightarrow> eb = Some ev))"
  shows "(a = Rejected \<or> t = Rejected \<or> e = Rejected \<longrightarrow>
            agents (refresh_resume a t e st) = agents st
          \<and> tasks (refresh_resume a t e st) = tasks st
          \<and> events (refresh_resume a t e st) = events st
          \<and> writes (refresh_resume a t e st) = writes st
          \<and> console (refresh_resume a t e st)
              = console st @ [''Failed to refresh activity dashboard data:'']
          \<and> agents (page_loadData_resume a t e p) = agents p
          \<and> tasks (page_loadData_resume a t e p) = tasks p
          \<and> events (page_loadData_resume a t e p) = events p
          \<and> writes (page_loadData_resume a t e p) = writes p
          \<and> console (page_loadData_resume a t e p) = console p @ [''Failed to load data:''])
       \<and> (a \<noteq> Rejected \<and> t \<noteq> Rejected \<and> e \<noteq> Rejected \<longrightarrow>
            agents (refresh_resume a t e st) = (if aok then av else agents st)
          \<and> tasks (refresh_resume a t e st) = (if tok then tv else tasks st)
          \<and> events (refresh_resume a t e st) = (if eok then ev else events st)
          \<and> writes (refresh_resume a t e st)
              = writes st @ (if aok then [Agents] else []) @ (if tok then [Tasks] else [])
                  @ (if eok then [Events] else [])
          \<and> console (refresh_resume a t e st) = console st
          \<and> agents (page_loadData_resume a t e p) = (if aok then av else agents p)
          \<and> tasks (page_loadData_resume a t e p) = (if tok then tv else tasks p)
          \<and> events (page_loadData_resume a t e p) = (if eok then ev else events p)
          \<and> writes (page_loadData_resume a t e p)
              = writes p @ (if aok then [Agents] else []) @ (if tok then [Tasks] else [])
                  @ (if eok then [Events] else [])
          \<and> console (page_loadData_resume a t e p) = console p)"
proof (cases "a = Rejected \<or> t = Rejected \<or> e = Rejected")
  case True
  then show ?thesis
    by (auto simp: refresh_resume_def page_loadData_resume_def setIsLoading_def
        try_write_responses_def all_resolved_def console_error_def)
next
  case False
  with assms have r: "a = Response aok ab" "t = Response tok tb" "e = Response eok eb"
    "aok \<longrightarrow> ab = Some av" "tok \<longrightarrow> tb = Some tv" "eok \<longrightarrow> eb = Some ev"
    by auto
  show ?thesis
    unfolding r(1,2,3) using r(4,5,6)
    by (simp add: refresh_resume_def page_loadData_resume_def setIsLoading_def
        try_write_responses_def all_resolved_def write_responses_def write_agents_def
        write_tasks_def write_events_def setAgents_def setTasks_def setEvents_def)
qed

text \<open>
  The agents response is not ok while the two others are: tasks and events are
  replaced, the agents stay. The agents fetch rejects: the page writes nothing.
\<close>

theorem c4_collections_written_per_response_witness:
  "agents (refresh_resume (Response False None) (Response True (Some [task_a1]))
             (Response True (Some [event_1])) mounted_A) = agents mounted_A
   \<and> tasks (refresh_resume (Response False None) (Response True (Some [task_a1]))
             (Response True (Some [event_1])) mounted_A) = [task_a1]
   \<and> events (refresh_resume (Response False None) (Response True (Some [task_a1]))
             (Response True (Some [event_1])) mounted_A) = [event_1]
   \<and> writes (page_loadData_resume Rejected (Response True (Some [task_a1]))
             (Response True (Some [event_1])) page_init) = writes page_init"
  using c4_collections_written_per_response [of "Response False None"
      "Response True (Some [task_a1])" "Response True (Some [event_1])"
      False None True "Some [task_a1]" True "Some [event_1]" "[]" "[task_a1]" "[event_1]"
      mounted_A page_init]
    c4_collections_written_per_response [of Rejected
      "Response True (Some [task_a1])" "Response True (Some [event_1])"
      False None True "Some [task_a1]" True "Some [event_1]" "[]" "[task_a1]" "[event_1]"
      mounted_A page_init]
  by simp

text \<open>
  The agents fetch rejects while the tasks and events fetches succeed:
  \<^verbatim>\<open>Promise.all\<close> rejects, and the tasks are not replaced although their own
  fetch succeeded.
\<close>

theorem c4_rejected_fetch_blocks_all_counterexample:
  "Tasks \<notin> set (writes (refresh_resume Rejected (Response True (Some [task_a1]))
                          (Response True (Some [event_1])) init))
   \<and> tasks (refresh_resume Rejected (Response True (Some [task_a1]))
              (Response True (Some [event_1])) init) = []
   \<and> Tasks \<notin> set (writes (page_loadData_resume Rejected (Response True (Some [task_a1]))
                          (Response True (Some [event_1])) page_init))"
  by (simp add: refresh_resume_def page_loadData_resume_def setIsLoading_def
      try_write_responses_def all_resolved_def console_error_def init_def page_init_def)

text \<open>
  Claim C5 fails on \<^verbatim>\<open>refresh\<close>, which has no \<^verbatim>\<open>mounted\<close> guard. The stream
  of workspace \<open>A\<close> delivers a data line and a refresh is in flight when the scope
  changes to \<open>B\<close>. The late result of the initial load of \<open>A\<close> is ignored, as its guard
  demands: the store holds the agents of \<open>B\<close>. The late result of the refresh of
  \<open>A\<close> is written: the store of the dashboard, now connected for \<open>B\<close>, holds the
  agents and tasks of \<open>A\<close>.
\<close>

theorem c5_late_refresh_overwrites_new_scope:
  "map_option agents (run switch_A_to_B init) = Some [agent_b1]
   \<and> map_option agents (run late_refresh_of_A init) = Some [agent_a1]
   \<and> map_option tasks (run late_refresh_of_A init) = Some [task_a1]
   \<and> map_option open_sources (run late_refresh_of_A init) = Some [(5, Some ''B'')]"
  by (simp add: late_refresh_of_A_def switch_A_to_B_def dash_defs)

text \<open>
  The guard of \<^verbatim>\<open>loadData\<close> is checked once, before the bodies are read: when the
  scope changes between the two, the bodies of \<open>A\<close> are written to the store of the
  dashboard connected for \<open>B\<close>.
\<close>

lemma late_body_reads_write_after_teardown:
  "map_option agents (run bodies_of_A_read_late init) = Some [agent_a1]
   \<and> map_option tasks (run bodies_of_A_read_late init) = Some [task_a1]
   \<and> map_option loading (run bodies_of_A_read_late init) = Some True
   \<and> map_option open_sources (run bodies_of_A_read_late init) = Some [(5, Some ''B'')]"
  by (simp add: bodies_of_A_read_late_def dash_defs)

section \<open>The window of the events log\<close>

text \<open>
  Claim C7 fails on \<^verbatim>\<open>loadData\<close> of the workspace page: its events request is
  \<^verbatim>\<open>/api/events\<close>, with no limit. The initial load and the refresh of the
  dashboard, and the event poller of the page, all carry one.
\<close>

theorem c7_page_loadData_events_unbounded:
  "filter is_events_request (fetches (page_loadData_start ''w1'' page_init)) = [''/api/events'']
   \<and> \<not> list_all has_limit
         (filter is_events_request (fetches (page_loadData_start ''w1'' page_init)))
   \<and> list_all has_limit (filter is_events_request (fetches mounted_A))
   \<and> list_all has_limit
         (filter is_events_request (fetches (refresh_start (Some ''A'') init)))
   \<and> list_all has_limit (filter is_events_request (fetches (eventPoll Rejected page_init)))"
  by (simp add: page_loadData_start_def page_init_def fetch_def is_events_request_def
      has_limit_def query_of_def page_loadData_events_url_def mounted_A_def dash_defs
      agents_url_def tasks_url_def truthy_def dashboard_events_url_def eventPoll_def
      eventPoll_url_def)

section \<open>The connectivity check\<close>

text \<open>
  Neither check bounds the read of the body, and the periodic check does not bound the
  wait for the response either: the first passes \<^verbatim>\<open>clearTimeout(timeoutId)\<close> before
  it awaits \<^verbatim>\<open>json()\<close>, the second arms no timer.
\<close>

lemma status_checks_unbounded:
  "d < status_timeout_ms \<Longrightarrow> fst (checkOpenClaw (After d (Replies True Hangs)) st) = None"
  "fst (connectionCheck (After d (Replies True Hangs)) st) = None"
  "fst (connectionCheck Never st) = None"
  by (simp_all add: checkOpenClaw_def checkOpenClaw_start_def fetch_with_abort_def
      checkOpenClaw_fetch_end_def connectionCheck_def Let_def)

text \<open>
  Claim C8, as the code has it. The check made when the page loads waits for the
  response under a bounded timeout: the wait ends within 5000 ms, and when no response
  has arrived by then the request is aborted, the check ends, and the online flag is set
  to false. In that check and in the periodic one, a request that rejects and a body
  that cannot be read set the online flag to false, a response that is not ok leaves the
  flag as it was, a body that is read sets the flag to its value, and nothing is logged
  or thrown.
\<close>

theorem c8_status_check_timeout_and_degradation:
  "fst (fetch_with_abort status_timeout_ms srv) \<le> status_timeout_ms
   \<and> console (snd (checkOpenClaw srv st)) = console st
   \<and> console (snd (connectionCheck srv st)) = console st
   \<and> (srv = Never \<or> (\<exists>d r. srv = After d r \<and> status_timeout_ms < d) \<longrightarrow>
         fst (checkOpenClaw srv st) = Some status_timeout_ms
         \<and> \<not> isOnline (snd (checkOpenClaw srv st)))
   \<and> (\<forall>d. srv = After d Fails \<longrightarrow>
         (\<exists>t. fst (checkOpenClaw srv st) = Some t \<and> t \<le> status_timeout_ms)
         \<and> \<not> isOnline (snd (checkOpenClaw srv st))
         \<and> fst (connectionCheck srv st) = Some d
         \<and> \<not> isOnline (snd (connectionCheck srv st)))
   \<and> (\<forall>d b. srv = After d (Replies True (Reads b None)) \<longrightarrow>
         \<not> isOnline (snd (checkOpenClaw srv st))
         \<and> fst (connectionCheck srv st) = Some (d + b)
         \<and> \<not> isOnline (snd (connectionCheck srv st)))
   \<and> (\<forall>d b c. srv = After d (Replies True (Reads b (Some c))) \<longrightarrow>
         (d < status_timeout_ms \<longrightarrow>
            fst (checkOpenClaw srv st) = Some (d + b)
            \<and> isOnline (snd (checkOpenClaw srv st)) = c)
         \<and> fst (connectionCheck srv st) = Some (d + b)
         \<and> isOnline (snd (connectionCheck srv st)) = c)
   \<and> (\<forall>d body. srv = After d (Replies False body) \<longrightarrow>
         (d < status_timeout_ms \<longrightarrow>
            fst (checkOpenClaw srv st) = Some d
            \<and> isOnline (snd (checkOpenClaw srv st)) = isOnline st)
         \<and> fst (connectionCheck srv st) = Some d
         \<and> isOnline (snd (connectionCheck srv st)) = isOnline st)"
proof (cases srv)
  case Never
  then show ?thesis
    by (simp add: checkOpenClaw_def checkOpenClaw_start_def fetch_with_abort_def
        checkOpenClaw_fetch_end_def timeout_fired_def setIsOnline_def fetch_def
        connectionCheck_def Let_def)
next
  case (After d r)
  show ?thesis
  proof (cases r)
    case Fails
    with After show ?thesis
      by (simp add: checkOpenClaw_def checkOpenClaw_start_def fetch_with_abort_def
          checkOpenClaw_fetch_end_def timeout_fired_def setIsOnline_def fetch_def
          connectionCheck_def Let_def)
  next
    case (Replies ok body)
    with After show ?thesis
      by (cases body; cases ok)
        (auto simp: checkOpenClaw_def checkOpenClaw_start_def fetch_with_abort_def
          checkOpenClaw_fetch_end_def timeout_fired_def clearTimeout_def setIsOnline_def
          fetch_def connectionCheck_def status_body_def Let_def split: option.splits)
  qed
qed

text \<open>
  The endpoint never answers: the check ends after 5000 ms with the flag false. The
  endpoint answers after 10 ms with a body that cannot be read: the flag is false.
\<close>

theorem c8_status_check_timeout_and_degradation_witness:
  "fst (checkOpenClaw Never page_online) = Some 5000
   \<and> \<not> isOnline (snd (checkOpenClaw Never page_online))
   \<and> \<not> isOnline (snd (connectionCheck (After 10 (Replies True (Reads 5 None))) page_online))"
  using c8_status_check_timeout_and_degradation [of Never page_online]
    c8_status_check_timeout_and_degradation
      [of "After 10 (Replies True (Reads 5 None))" page_online]
  by (simp add: status_timeout_ms_def)

text \<open>
  A failure that is not treated as disconnected: the endpoint answers with a response
  that is not ok, and the online flag stays true, in both checks.
\<close>

theorem c8_failed_response_keeps_online_counterexample:
  "isOnline (snd (checkOpenClaw (After 10 (Replies False Hangs)) page_online))
   \<and> isOnline (snd (connectionCheck (After 10 (Replies False Hangs)) page_online))"
  by (simp add: checkOpenClaw_def checkOpenClaw_start_def fetch_with_abort_def
      checkOpenClaw_fetch_end_def clearTimeout_def status_timeout_ms_def page_online_def
      page_init_def fetch_def connectionCheck_def Let_def)

end
